theory Spec2Isabelle
  imports Complex_Main "HOL-Library.Log_Nat" "HOL-Library.AList"
begin

section \<open>JavaScript numbers\<close>

text \<open>
  The pages compute on amounts with \<^verbatim>\<open>parseFloat\<close> and the operators
  \<^verbatim>\<open>+ - * / > <\<close> of JavaScript, whose numbers are IEEE 754 binary64 values.
  A number is \<open>NaN\<close>, an infinity, or a finite value, kept as the rational it
  denotes. Every operation computes the exact rational result and rounds it to the
  nearest binary64 value, ties to the even significand. The two zeros are identified:
  no expression of the modelled code tells them apart.
\<close>

datatype jsnum = NaN | PosInf | NegInf | Fin rat

definition pow2 :: "int \<Rightarrow> rat" where
  "pow2 k = (if 0 \<le> k then 2 ^ nat k else 1 / 2 ^ nat (- k))"

definition ilog2 :: "rat \<Rightarrow> int" where
  \<comment> \<open>\<open>\<lfloor>log\<^sub>2 a\<rfloor>\<close> for \<open>a > 0\<close>, computed on integers.\<close>
  "ilog2 a =
     (if 1 \<le> a then bitlen \<lfloor>a\<rfloor> - 1
      else (let b = 1 / a; k = bitlen \<lfloor>b\<rfloor>
            in if b = pow2 (k - 1) then - (k - 1) else - k))"

definition round_half_even :: "rat \<Rightarrow> int" where
  "round_half_even r =
     (let f = \<lfloor>r\<rfloor>; d = r - of_int f
      in if d < 1 / 2 then f
         else if 1 / 2 < d then f + 1
         else if even f then f else f + 1)"

definition rnd64 :: "rat \<Rightarrow> jsnum" where
  \<comment> \<open>Round to nearest binary64: 53-bit significand, least exponent \<open>-1074\<close>,
      overflow to an infinity from \<open>2\<^sup>1\<^sup>0\<^sup>2\<^sup>4\<close> on.\<close>
  "rnd64 q =
     (if q = 0 then Fin 0
      else let a = \<bar>q\<bar>;
               ex = max (ilog2 a - 52) (- 1074);
               v = of_int (round_half_even (a / pow2 ex)) * pow2 ex
           in if pow2 1024 \<le> v then (if 0 < q then PosInf else NegInf)
              else Fin (if 0 < q then v else - v))"

fun js_neg :: "jsnum \<Rightarrow> jsnum" where
  "js_neg NaN = NaN"
| "js_neg PosInf = NegInf"
| "js_neg NegInf = PosInf"
| "js_neg (Fin a) = Fin (- a)"

fun js_add :: "jsnum \<Rightarrow> jsnum \<Rightarrow> jsnum" where
  "js_add NaN _ = NaN"
| "js_add _ NaN = NaN"
| "js_add PosInf NegInf = NaN"
| "js_add NegInf PosInf = NaN"
| "js_add PosInf _ = PosInf"
| "js_add NegInf _ = NegInf"
| "js_add _ PosInf = PosInf"
| "js_add _ NegInf = NegInf"
| "js_add (Fin a) (Fin b) = rnd64 (a + b)"

definition js_sub :: "jsnum \<Rightarrow> jsnum \<Rightarrow> jsnum" where
  "js_sub x y = js_add x (js_neg y)"

fun js_sign :: "jsnum \<Rightarrow> int" where
  "js_sign NaN = 0"
| "js_sign PosInf = 1"
| "js_sign NegInf = - 1"
| "js_sign (Fin a) = (if a < 0 then - 1 else if a = 0 then 0 else 1)"

definition signed_inf :: "int \<Rightarrow> jsnum" where
  "signed_inf s = (if s = 0 then NaN else if 0 < s then PosInf else NegInf)"

fun js_mul :: "jsnum \<Rightarrow> jsnum \<Rightarrow> jsnum" where
  "js_mul NaN _ = NaN"
| "js_mul _ NaN = NaN"
| "js_mul (Fin a) (Fin b) = rnd64 (a * b)"
| "js_mul x y = signed_inf (js_sign x * js_sign y)"

fun js_div :: "jsnum \<Rightarrow> jsnum \<Rightarrow> jsnum" where
  "js_div NaN _ = NaN"
| "js_div _ NaN = NaN"
| "js_div (Fin a) (Fin b) =
     (if b = 0 then signed_inf (js_sign (Fin a)) else rnd64 (a / b))"
| "js_div (Fin a) _ = Fin 0"
| "js_div x (Fin b) = signed_inf (js_sign x * (if b < 0 then - 1 else 1))"
| "js_div _ _ = NaN"

fun js_lt :: "jsnum \<Rightarrow> jsnum \<Rightarrow> bool" where
  "js_lt NaN _ = False"
| "js_lt _ NaN = False"
| "js_lt (Fin a) (Fin b) = (a < b)"
| "js_lt PosInf _ = False"
| "js_lt _ NegInf = False"
| "js_lt NegInf _ = True"
| "js_lt _ PosInf = True"

definition js_gt :: "jsnum \<Rightarrow> jsnum \<Rightarrow> bool" where
  "js_gt x y = js_lt y x"

fun js_le :: "jsnum \<Rightarrow> jsnum \<Rightarrow> bool" where
  "js_le NaN _ = False"
| "js_le _ NaN = False"
| "js_le x y = (\<not> js_lt y x)"

definition js_ge :: "jsnum \<Rightarrow> jsnum \<Rightarrow> bool" where
  "js_ge x y = js_le y x"


fun js_truthy :: "jsnum \<Rightarrow> bool" where
  \<comment> \<open>ToBoolean on a number: \<open>0\<close> and \<open>NaN\<close> are falsy.\<close>
  "js_truthy NaN = False"
| "js_truthy (Fin a) = (a \<noteq> 0)"
| "js_truthy _ = True"


subsection \<open>Reading numbers from strings\<close>

text \<open>
  \<^verbatim>\<open>parseFloat\<close> skips leading white space, reads the longest prefix that is a
  decimal literal (sign, \<^verbatim>\<open>Infinity\<close>, or digits with an optional fraction and an
  optional exponent) and ignores what follows; with no such prefix the result is
  \<open>NaN\<close>. \<^verbatim>\<open>parseInt\<close> with no radix reads an optional sign and the longest run
  of decimal digits, or of hexadecimal digits after \<^verbatim>\<open>0x\<close>. Strings are byte
  strings here, so the white space is the ASCII white space.
\<close>

definition is_ws :: "char \<Rightarrow> bool" where
  "is_ws c = (of_char c \<in> {9, 10, 11, 12, 13, 32 :: nat})"

definition is_digit :: "char \<Rightarrow> bool" where
  "is_digit c = (48 \<le> (of_char c :: nat) \<and> (of_char c :: nat) \<le> 57)"

definition digit_val :: "char \<Rightarrow> nat" where
  "digit_val c = of_char c - 48"

definition is_hex_digit :: "char \<Rightarrow> bool" where
  "is_hex_digit c =
     (is_digit c \<or> (65 \<le> (of_char c :: nat) \<and> (of_char c :: nat) \<le> 70)
                \<or> (97 \<le> (of_char c :: nat) \<and> (of_char c :: nat) \<le> 102))"

definition hex_digit_val :: "char \<Rightarrow> nat" where
  "hex_digit_val c =
     (if is_digit c then of_char c - 48
      else if (of_char c :: nat) \<le> 70 then of_char c - 55 else of_char c - 87)"

fun digits_val :: "nat \<Rightarrow> string \<Rightarrow> nat" where
  "digits_val acc [] = acc"
| "digits_val acc (c # cs) = digits_val (10 * acc + digit_val c) cs"

fun hex_digits_val :: "nat \<Rightarrow> string \<Rightarrow> nat" where
  "hex_digits_val acc [] = acc"
| "hex_digits_val acc (c # cs) = hex_digits_val (16 * acc + hex_digit_val c) cs"

definition pow10 :: "int \<Rightarrow> rat" where
  "pow10 k = (if 0 \<le> k then 10 ^ nat k else 1 / 10 ^ nat (- k))"

definition has_sign :: "string \<Rightarrow> bool" where
  "has_sign s = (s \<noteq> [] \<and> (hd s = CHR ''-'' \<or> hd s = CHR ''+''))"

definition is_negative :: "string \<Rightarrow> bool" where
  "is_negative s = (s \<noteq> [] \<and> hd s = CHR ''-'')"

definition exponent_part :: "string \<Rightarrow> int" where
  \<comment> \<open>The exponent after the digits, \<open>0\<close> when no complete exponent follows.\<close>
  "exponent_part r =
     (if r \<noteq> [] \<and> (hd r = CHR ''e'' \<or> hd r = CHR ''E'') then
        (let t = tl r;
             ds = takeWhile is_digit (if has_sign t then tl t else t)
         in if ds = [] then 0
            else if is_negative t then - int (digits_val 0 ds) else int (digits_val 0 ds))
      else 0)"

definition parseFloat :: "string \<Rightarrow> jsnum" where
  "parseFloat input =
     (let s = dropWhile is_ws input;
          s1 = (if has_sign s then tl s else s)
      in if take 8 s1 = ''Infinity'' then (if is_negative s then NegInf else PosInf)
         else
           (let ip = takeWhile is_digit s1;
                r1 = dropWhile is_digit s1;
                dot = (r1 \<noteq> [] \<and> hd r1 = CHR ''.'');
                fp = (if dot then takeWhile is_digit (tl r1) else []);
                r2 = (if dot then dropWhile is_digit (tl r1) else r1)
            in if ip = [] \<and> fp = [] then NaN
               else
                 (let v = rnd64 (of_nat (digits_val 0 (ip @ fp))
                                 * pow10 (exponent_part r2 - int (length fp)))
                  in if is_negative s then js_neg v else v)))"

definition parseInt :: "string \<Rightarrow> jsnum" where
  "parseInt input =
     (let s = dropWhile is_ws input;
          s1 = (if has_sign s then tl s else s);
          hex = (take 2 s1 = ''0x'' \<or> take 2 s1 = ''0X'');
          ds = (if hex then takeWhile is_hex_digit (drop 2 s1) else takeWhile is_digit s1)
      in if ds = [] then NaN
         else
           (let v = rnd64 (of_nat (if hex then hex_digits_val 0 ds else digits_val 0 ds))
            in if is_negative s then js_neg v else v))"

definition or_str :: "string option \<Rightarrow> string \<Rightarrow> string" where
  \<comment> \<open>\<^verbatim>\<open>a || b\<close> on an optional string: \<^verbatim>\<open>undefined\<close> and the empty string are falsy.\<close>
  "or_str a b = (case a of None \<Rightarrow> b | Some s \<Rightarrow> if s = [] then b else s)"

definition or_num :: "jsnum option \<Rightarrow> jsnum \<Rightarrow> jsnum" where
  \<comment> \<open>\<^verbatim>\<open>a || b\<close> on an optional number: \<^verbatim>\<open>undefined\<close>, \<open>0\<close> and \<open>NaN\<close> are falsy.\<close>
  "or_num a b = (case a of None \<Rightarrow> b | Some n \<Rightarrow> if js_truthy n then n else b)"

definition at_index :: "'a list \<Rightarrow> nat \<Rightarrow> 'a option" where
  \<comment> \<open>An array read: \<^verbatim>\<open>undefined\<close> beyond the end.\<close>
  "at_index xs i = (if i < length xs then Some (xs ! i) else None)"


section \<open>Wire types (\<^verbatim>\<open>lib/api/types.ts\<close>)\<close>

text \<open>
  Amounts travel as decimal strings. The records keep the fields that the modelled
  functions read, under the names of the interfaces; a field name shared by several
  interfaces carries a prefix.
\<close>

datatype ClientStatus = active | paused | deleted
datatype PaymentBehavior = on_time | delayed | unknown
datatype RiskLevel = low | medium | high
datatype Priority = priority_high | priority_medium | priority_low

datatype ScenarioType =
    client_loss | client_gain | client_change | hiring | firing
  | contractor_gain | contractor_loss | increased_expense | decreased_expense
  | payment_delay_in | payment_delay_out

record BillingConfig =
  amount :: "string option"
  payment_terms :: "string option"

record Client =
  client_ident :: string
  client_name :: string
  status :: ClientStatus
  payment_behavior :: PaymentBehavior
  churn_risk :: RiskLevel
  billing_config :: "BillingConfig option"

record ForecastWeek =
  week_number :: nat
  starting_balance :: string
  cash_in :: string
  cash_out :: string
  net_change :: string
  ending_balance :: string

record ForecastSummary =
  lowest_cash_week :: nat
  lowest_cash_amount :: string
  total_cash_in :: string
  total_cash_out :: string
  runway_weeks :: nat

record ForecastResponse =
  starting_cash :: string
  forecast_start_date :: string
  weeks :: "ForecastWeek list"
  summary :: ForecastSummary

record RuleEvaluation =
  rule_id :: string
  rule_name :: string
  passed :: bool
  breach_week :: "nat option"

record PrefillParams =
  client_id :: "string option"
  delay_days :: "nat option"

datatype Description =
    Plain string
  | WithPercent string jsnum string

text \<open>
  \<open>WithPercent a c b\<close> is the template literal \<^verbatim>\<open>`a${c.toFixed(0)}b`\<close>: the text
  before the hole, the number that \<^verbatim>\<open>toFixed(0)\<close> formats, the text after it.
\<close>

record ScenarioSuggestion =
  scenario_type :: ScenarioType
  name :: string
  description :: Description
  prefill_params :: PrefillParams
  priority :: Priority

record ScenarioComparisonResponse =
  base_forecast :: ForecastResponse
  scenario_forecast :: ForecastResponse
  rule_evaluations :: "RuleEvaluation list option"
  suggested_scenarios :: "ScenarioSuggestion list"

record ThresholdConfig =
  months :: "jsnum option"

record FinancialRule =
  rule_ident :: string
  rule_user_id :: string
  rule_type :: string
  rule_title :: string
  rule_description :: "string option"
  threshold_config :: ThresholdConfig
  is_active :: bool
  evaluation_scope :: string


section \<open>Scenario page (\<^verbatim>\<open>Scenarios\<close> component)\<close>

subsection \<open>Locally generated suggestions\<close>

definition clientAmount :: "Client \<Rightarrow> jsnum" where
  \<comment> \<open>\<^verbatim>\<open>parseFloat(client.billing_config?.amount || '0')\<close>\<close>
  "clientAmount client =
     parseFloat (or_str (case billing_config client of None \<Rightarrow> None
                                                      | Some b \<Rightarrow> amount b) ''0'')"

definition totalClientIncome :: "Client list \<Rightarrow> jsnum" where
  "totalClientIncome clients =
     foldl (\<lambda>sum client. js_add sum (clientAmount client)) (Fin 0) clients"

definition concentration :: "jsnum \<Rightarrow> Client \<Rightarrow> jsnum" where
  \<comment> \<open>\<^verbatim>\<open>totalClientIncome > 0 ? (clientAmount / totalClientIncome) * 100 : 0\<close>\<close>
  "concentration totalIncome client =
     (if js_gt totalIncome (Fin 0)
      then js_mul (js_div (clientAmount client) totalIncome) (Fin 100)
      else Fin 0)"

definition concentrationFor :: "jsnum \<Rightarrow> Client \<Rightarrow> ScenarioSuggestion list" where
  \<comment> \<open>What one round of the first \<^verbatim>\<open>forEach\<close> pushes.\<close>
  "concentrationFor totalIncome client =
     (let c = concentration totalIncome client in
      if js_gt c (Fin 40) then
        [\<lparr>scenario_type = payment_delay_in,
          name = ''Late payment from '' @ client_name client,
          description = WithPercent (client_name client @ '' represents '') c
            ''% of your income. A late payment could significantly impact cash flow.'',
          prefill_params = \<lparr>client_id = Some (client_ident client), delay_days = Some 30\<rparr>,
          priority = priority_high\<rparr>,
         \<lparr>scenario_type = client_loss,
          name = ''Lose '' @ client_name client,
          description = WithPercent
            ''What happens if you lose your largest client who accounts for '' c
            ''% of revenue?'',
          prefill_params = \<lparr>client_id = Some (client_ident client), delay_days = None\<rparr>,
          priority = priority_high\<rparr>]
      else if js_gt c (Fin 25) then
        [\<lparr>scenario_type = payment_delay_in,
          name = ''Late payment from '' @ client_name client,
          description = WithPercent (client_name client @ '' is '') c
            ''% of income. Explore the impact of delayed payment.'',
          prefill_params = \<lparr>client_id = Some (client_ident client), delay_days = Some 14\<rparr>,
          priority = priority_medium\<rparr>]
      else [])"

definition concentrationSuggestions :: "Client list \<Rightarrow> ScenarioSuggestion list" where
  \<comment> \<open>The list after the first \<^verbatim>\<open>forEach\<close>.\<close>
  "concentrationSuggestions clients =
     foldl (\<lambda>generated client.
              generated @ concentrationFor (totalClientIncome clients) client)
       [] clients"

definition has_suggestion :: "ScenarioSuggestion list \<Rightarrow> string \<Rightarrow> ScenarioType \<Rightarrow> bool" where
  \<comment> \<open>\<^verbatim>\<open>find(s => s.prefill_params?.client_id === id && s.scenario_type === t)\<close>
      finds something.\<close>
  "has_suggestion generated ident t =
     (List.find (\<lambda>s. client_id (prefill_params s) = Some ident \<and> scenario_type s = t)
        generated \<noteq> None)"

definition churnSuggestions :: "Client list \<Rightarrow> ScenarioSuggestion list \<Rightarrow> ScenarioSuggestion list" where
  "churnSuggestions clients generated0 =
     foldl (\<lambda>generated client.
              if \<not> has_suggestion generated (client_ident client) client_loss then
                generated @
                [\<lparr>scenario_type = client_loss,
                  name = ''Lose '' @ client_name client,
                  description = Plain (client_name client
                    @ '' has high churn risk. Plan for potential loss.''),
                  prefill_params = \<lparr>client_id = Some (client_ident client), delay_days = None\<rparr>,
                  priority = priority_high\<rparr>]
              else generated)
       generated0 (filter (\<lambda>c. churn_risk c = high) clients)"

definition delaySuggestions :: "Client list \<Rightarrow> ScenarioSuggestion list \<Rightarrow> ScenarioSuggestion list" where
  "delaySuggestions clients generated0 =
     foldl (\<lambda>generated client.
              if \<not> has_suggestion generated (client_ident client) payment_delay_in then
                generated @
                [\<lparr>scenario_type = payment_delay_in,
                  name = ''Extended delay from '' @ client_name client,
                  description = Plain (client_name client
                    @ '' has a history of late payments. Model an extended delay.''),
                  prefill_params = \<lparr>client_id = Some (client_ident client), delay_days = Some 30\<rparr>,
                  priority = priority_medium\<rparr>]
              else generated)
       generated0 (filter (\<lambda>c. payment_behavior c = delayed) clients)"

definition defaultScenarios :: "ScenarioSuggestion list" where
  "defaultScenarios =
     [\<lparr>scenario_type = increased_expense,
       name = ''Increase in operating costs'',
       description = Plain ''Model a 10% increase in your monthly operating expenses.'',
       prefill_params = \<lparr>client_id = None, delay_days = None\<rparr>,
       priority = priority_medium\<rparr>,
      \<lparr>scenario_type = hiring,
       name = ''New hire'',
       description = Plain ''Model the impact of adding a new team member.'',
       prefill_params = \<lparr>client_id = None, delay_days = None\<rparr>,
       priority = priority_low\<rparr>,
      \<lparr>scenario_type = decreased_expense,
       name = ''Reduce expenses by 15%'',
       description = Plain ''Model cutting costs to improve runway.'',
       prefill_params = \<lparr>client_id = None, delay_days = None\<rparr>,
       priority = priority_low\<rparr>]"

fun fillDefaults :: "ScenarioSuggestion list \<Rightarrow> ScenarioSuggestion list \<Rightarrow> ScenarioSuggestion list" where
  \<comment> \<open>The \<^verbatim>\<open>while\<close> loop: one default is shifted off per round.\<close>
  "fillDefaults generated [] = generated"
| "fillDefaults generated (d # ds) =
     (if length generated < 3 then
        fillDefaults
          (if List.find (\<lambda>s. scenario_type s = scenario_type d) generated = None
           then generated @ [d] else generated) ds
      else generated)"

definition generateSuggestedScenarios :: "Client list \<Rightarrow> ScenarioSuggestion list" where
  "generateSuggestedScenarios clients =
     take 3 (fillDefaults
               (delaySuggestions clients
                  (churnSuggestions clients (concentrationSuggestions clients)))
               defaultScenarios)"

definition allSuggestions :: "ScenarioSuggestion list \<Rightarrow> Client list \<Rightarrow> ScenarioSuggestion list" where
  \<comment> \<open>Suggestions of the API win over the generated ones.\<close>
  "allSuggestions suggestions clients =
     (if 0 < length suggestions then suggestions
      else generateSuggestedScenarios clients)"


subsection \<open>Cash buffer and week-13 impact\<close>

definition bufferRule :: "FinancialRule list \<Rightarrow> FinancialRule option" where
  "bufferRule rules = List.find (\<lambda>r. rule_type r = ''minimum_cash_buffer'') rules"

definition bufferMonths :: "FinancialRule list \<Rightarrow> jsnum" where
  \<comment> \<open>\<^verbatim>\<open>(bufferRule?.threshold_config as { months?: number })?.months || 3\<close>\<close>
  "bufferMonths rules =
     or_num (case bufferRule rules of None \<Rightarrow> None
                                     | Some r \<Rightarrow> months (threshold_config r)) (Fin 3)"

definition expenses4 :: "ForecastWeek list \<Rightarrow> jsnum" where
  \<comment> \<open>\<^verbatim>\<open>weeks.slice(0, 4).reduce((sum, week) => sum + parseFloat(week.cash_out || '0'), 0)\<close>\<close>
  "expenses4 ws =
     foldl (\<lambda>sum week. js_add sum (parseFloat (or_str (Some (cash_out week)) ''0'')))
       (Fin 0) (take 4 ws)"

definition monthlyExpenses :: "ForecastResponse option \<Rightarrow> jsnum" where
  "monthlyExpenses baseForecast =
     (case baseForecast of Some f \<Rightarrow> expenses4 (weeks f) | None \<Rightarrow> Fin 30000)"

definition bufferAmount :: "FinancialRule list \<Rightarrow> ForecastResponse option \<Rightarrow> jsnum" where
  "bufferAmount rules baseForecast =
     js_mul (monthlyExpenses baseForecast) (bufferMonths rules)"

definition isBufferSafe ::
  "ScenarioComparisonResponse option \<Rightarrow> FinancialRule list \<Rightarrow> ForecastResponse option \<Rightarrow> bool" where
  "isBufferSafe comparison rules baseForecast =
     (case comparison of
        Some c \<Rightarrow>
          (case rule_evaluations c of
             None \<Rightarrow> True
           | Some evals \<Rightarrow> \<not> list_ex (\<lambda>r. \<not> passed r) evals)
      | None \<Rightarrow>
          (case baseForecast of
             Some f \<Rightarrow>
               js_gt (parseFloat (lowest_cash_amount (summary f)))
                     (bufferAmount rules baseForecast)
           | None \<Rightarrow> True))"

definition balance13 :: "ForecastResponse \<Rightarrow> string" where
  \<comment> \<open>\<^verbatim>\<open>forecast.weeks[12]?.ending_balance || '0'\<close>\<close>
  "balance13 f = or_str (map_option ending_balance (at_index (weeks f) 12)) ''0''"

definition impactWeek13 :: "ScenarioComparisonResponse \<Rightarrow> jsnum" where
  \<comment> \<open>The number both scenario pages pass to \<^verbatim>\<open>formatCurrency\<close> as the
      impact at week 13.\<close>
  "impactWeek13 c =
     js_sub (parseFloat (balance13 (scenario_forecast c)))
            (parseFloat (balance13 (base_forecast c)))"


section \<open>Dashboard (\<^verbatim>\<open>Dashboard\<close> component)\<close>

datatype BufferBadge = Buffer_Breach | At_Risk | Cash_Buffer_Safe

definition totalExpenses30D :: "ForecastResponse option \<Rightarrow> jsnum" where
  \<comment> \<open>\<^verbatim>\<open>forecast?.weeks.slice(0, 4).reduce(...) || 0\<close>\<close>
  "totalExpenses30D forecast =
     or_num (map_option (\<lambda>f. expenses4 (weeks f)) forecast) (Fin 0)"

definition dashboardBufferAmount :: "FinancialRule list \<Rightarrow> ForecastResponse option \<Rightarrow> jsnum" where
  "dashboardBufferAmount rules forecast =
     js_mul (totalExpenses30D forecast) (bufferMonths rules)"

definition lowestBalance :: "ForecastResponse option \<Rightarrow> jsnum \<Rightarrow> jsnum" where
  \<comment> \<open>\<^verbatim>\<open>forecast?.summary.lowest_cash_amount ? parseFloat(...) : availableCash\<close>\<close>
  "lowestBalance forecast availableCash =
     (case forecast of
        None \<Rightarrow> availableCash
      | Some f \<Rightarrow>
          if lowest_cash_amount (summary f) = [] then availableCash
          else parseFloat (lowest_cash_amount (summary f)))"

definition isAtRisk :: "FinancialRule list \<Rightarrow> ForecastResponse option \<Rightarrow> jsnum \<Rightarrow> bool" where
  "isAtRisk rules forecast availableCash =
     (js_gt (lowestBalance forecast availableCash) (Fin 0)
      \<and> js_lt (lowestBalance forecast availableCash) (dashboardBufferAmount rules forecast))"

definition isBreach :: "ForecastResponse option \<Rightarrow> jsnum \<Rightarrow> bool" where
  "isBreach forecast availableCash = js_le (lowestBalance forecast availableCash) (Fin 0)"

definition dashboardBadge :: "FinancialRule list \<Rightarrow> ForecastResponse option \<Rightarrow> jsnum \<Rightarrow> BufferBadge" where
  \<comment> \<open>\<^verbatim>\<open>isBreach ? 'Buffer Breach' : isAtRisk ? 'At Risk' : 'Cash Buffer Safe'\<close>\<close>
  "dashboardBadge rules forecast availableCash =
     (if isBreach forecast availableCash then Buffer_Breach
      else if isAtRisk rules forecast availableCash then At_Risk
      else Cash_Buffer_Safe)"


section \<open>Settings page (\<^verbatim>\<open>Settings\<close> component)\<close>

record User =
  user_ident :: string
  email :: string

record RuleCreate =
  new_user_id :: string
  new_rule_type :: string
  new_name :: string
  new_description :: string
  new_threshold_config :: ThresholdConfig
  new_is_active :: bool
  new_evaluation_scope :: string

text \<open>
  The handler awaits one call of the rules API. The call is a value of the model, and
  whether it resolved is an input: the success message is set only after it does.
\<close>

datatype RuleCall = updateRule string ThresholdConfig | createRule RuleCreate

definition bufferRuleCall :: "User option \<Rightarrow> FinancialRule list \<Rightarrow> string \<Rightarrow> RuleCall option" where
  "bufferRuleCall user rules bufferMonthsInput =
     (case user of
        None \<Rightarrow> None
      | Some u \<Rightarrow>
          (case List.find (\<lambda>r. rule_type r = ''minimum_cash_buffer'') rules of
             Some existingRule \<Rightarrow>
               Some (updateRule (rule_ident existingRule)
                       \<lparr>months = Some (parseInt bufferMonthsInput)\<rparr>)
           | None \<Rightarrow>
               Some (createRule
                       \<lparr>new_user_id = user_ident u,
                        new_rule_type = ''minimum_cash_buffer'',
                        new_name = ''Minimum Cash Buffer'',
                        new_description = ''Maintain at least '' @ bufferMonthsInput
                          @ '' months of operating expenses'',
                        new_threshold_config = \<lparr>months = Some (parseInt bufferMonthsInput)\<rparr>,
                        new_is_active = True,
                        new_evaluation_scope = ''all''\<rparr>)))"

definition handleUpdateBufferRule ::
  "User option \<Rightarrow> FinancialRule list \<Rightarrow> string \<Rightarrow> bool \<Rightarrow> string \<Rightarrow> RuleCall list \<times> string" where
  \<comment> \<open>The calls issued and the sync message afterwards.\<close>
  "handleUpdateBufferRule user rules bufferMonthsInput resolved syncMessage =
     (case bufferRuleCall user rules bufferMonthsInput of
        None \<Rightarrow> ([], syncMessage)
      | Some call \<Rightarrow>
          ([call], if resolved then ''Buffer rule updated successfully'' else syncMessage))"


text \<open>
  Clicks on \<^verbatim>\<open>Save Rule\<close> during one visit of the page, each with the months selected
  at that moment and with whether its call resolved. The handler sets no state but the
  sync message (\<^verbatim>\<open>setRules\<close> is called on load only), so every click sees the rules
  as they were loaded.
\<close>

fun saveRuleClicks ::
  "User option \<Rightarrow> FinancialRule list \<Rightarrow> (string \<times> bool) list \<Rightarrow> string \<Rightarrow> RuleCall list \<times> string" where
  "saveRuleClicks user rules [] syncMessage = ([], syncMessage)"
| "saveRuleClicks user rules ((selected, resolved) # clicks) syncMessage =
     (case handleUpdateBufferRule user rules selected resolved syncMessage of
        (calls, syncMessage') \<Rightarrow>
          (case saveRuleClicks user rules clicks syncMessage' of
             (later, final) \<Rightarrow> (calls @ later, final)))"

section \<open>API client (\<^verbatim>\<open>lib/api/client.ts\<close>)\<close>
























section \<open>Forecast engine\<close>

text \<open>
  Modelled from the spec: the forecast engine \<^verbatim>\<open>compute_forecast\<close> is code of the
  backend; the front end holds only the interfaces of what it returns. Following
  sections 3 and 4.2: events are dated, carry a non-negative magnitude and a direction;
  the engine buckets them into 13 consecutive windows of 7 days, the first starting on
  the as-of date, sums each bucket by direction and threads the running balance from one
  week into the next. Dates are day numbers and amounts exact decimals, here rationals.
\<close>

datatype Direction = dir_in | dir_out

record CashEvent =
  event_date :: int
  event_amount :: rat
  direction :: Direction

record ProjectedWeek =
  week_no :: nat
  week_starting_balance :: rat
  week_cash_in :: rat
  week_cash_out :: rat
  week_net_change :: rat
  week_ending_balance :: rat
  week_events :: "CashEvent list"

record ProjectionSummary =
  lowest_balance :: rat
  lowest_week :: nat
  total_in :: rat
  total_out :: rat
  runway :: "nat option"

record Projection =
  projection_starting_cash :: rat
  projected_weeks :: "ProjectedWeek list"
  projection_summary :: ProjectionSummary

definition in_week :: "int \<Rightarrow> nat \<Rightarrow> CashEvent \<Rightarrow> bool" where
  \<comment> \<open>Modelled from the spec: window \<open>k\<close> (from 0) holds the days
      \<open>as_of + 7k\<close> up to \<open>as_of + 7k + 6\<close>.\<close>
  "in_week as_of_date k e =
     (as_of_date + 7 * int k \<le> event_date e \<and> event_date e < as_of_date + 7 * int k + 7)"

definition direction_total :: "Direction \<Rightarrow> CashEvent list \<Rightarrow> rat" where
  \<comment> \<open>Modelled from the spec: within a bucket the amounts are summed by direction.\<close>
  "direction_total d es = sum_list (map event_amount (filter (\<lambda>e. direction e = d) es))"

fun project_weeks :: "rat \<Rightarrow> CashEvent list \<Rightarrow> int \<Rightarrow> nat \<Rightarrow> nat \<Rightarrow> ProjectedWeek list" where
  \<comment> \<open>Modelled from the spec: \<open>n\<close> further weeks from window \<open>k\<close> on, the balance
      carried over.\<close>
  "project_weeks balance es as_of_date k 0 = []"
| "project_weeks balance es as_of_date k (Suc n) =
     (let bucket = filter (in_week as_of_date k) es;
          cin = direction_total dir_in bucket;
          cout = direction_total dir_out bucket;
          ending = balance + cin - cout
      in \<lparr>week_no = k + 1,
          week_starting_balance = balance,
          week_cash_in = cin,
          week_cash_out = cout,
          week_net_change = cin - cout,
          week_ending_balance = ending,
          week_events = bucket\<rparr>
         # project_weeks ending es as_of_date (k + 1) n)"

fun first_breach :: "nat \<Rightarrow> ProjectedWeek list \<Rightarrow> nat option" where
  \<comment> \<open>Modelled from the spec: the first week index, counted from \<open>i\<close>, whose ending
      balance is at most 0; \<open>None\<close> is the spec's null.\<close>
  "first_breach i [] = None"
| "first_breach i (w # ws) =
     (if week_ending_balance w \<le> 0 then Some i else first_breach (i + 1) ws)"

fun lowest_of :: "nat \<Rightarrow> rat \<times> nat \<Rightarrow> ProjectedWeek list \<Rightarrow> rat \<times> nat" where
  \<comment> \<open>Modelled from the spec: the lowest ending balance and the first week that has it.\<close>
  "lowest_of i best [] = best"
| "lowest_of i best (w # ws) =
     lowest_of (i + 1)
       (if week_ending_balance w < fst best then (week_ending_balance w, i) else best) ws"

definition summarise :: "rat \<Rightarrow> ProjectedWeek list \<Rightarrow> ProjectionSummary" where
  \<comment> \<open>Modelled from the spec: lowest balance, the week it occurs in, totals, runway.\<close>
  "summarise starting ws =
     (let low = (case ws of [] \<Rightarrow> (starting, 0)
                          | w # rest \<Rightarrow> lowest_of 1 (week_ending_balance w, 0) rest)
      in \<lparr>lowest_balance = fst low,
          lowest_week = snd low,
          total_in = sum_list (map week_cash_in ws),
          total_out = sum_list (map week_cash_out ws),
          runway = first_breach 0 ws\<rparr>)"

definition compute_forecast :: "rat \<Rightarrow> CashEvent list \<Rightarrow> int \<Rightarrow> Projection" where
  \<comment> \<open>Modelled from the spec: \<^verbatim>\<open>compute_forecast(starting_cash, events, as_of_date)\<close>.\<close>
  "compute_forecast starting es as_of_date =
     (let ws = project_weeks starting es as_of_date 0 13
      in \<lparr>projection_starting_cash = starting,
          projected_weeks = ws,
          projection_summary = summarise starting ws\<rparr>)"


section \<open>Sample data\<close>

text \<open>
  A base forecast that starts with 1700 and pays 100 a week, a scenario forecast with 50
  more to pay in week 2, and a forecast with the amounts 0.1 and 0.2.
\<close>

definition sample_week :: "nat \<Rightarrow> string \<Rightarrow> string \<Rightarrow> string \<Rightarrow> ForecastWeek" where
  "sample_week n starting out ending =
     \<lparr>week_number = n, starting_balance = starting, cash_in = ''0'', cash_out = out,
      net_change = ''-'' @ out, ending_balance = ending\<rparr>"

definition sample_base :: ForecastResponse where
  "sample_base =
     \<lparr>starting_cash = ''1700'', forecast_start_date = ''2025-01-06'',
      weeks =
       [sample_week 1 ''1700'' ''100'' ''1600'',
        sample_week 2 ''1600'' ''100'' ''1500'',
        sample_week 3 ''1500'' ''100'' ''1400'',
        sample_week 4 ''1400'' ''100'' ''1300'',
        sample_week 5 ''1300'' ''100'' ''1200'',
        sample_week 6 ''1200'' ''100'' ''1100'',
        sample_week 7 ''1100'' ''100'' ''1000'',
        sample_week 8 ''1000'' ''100'' ''900'',
        sample_week 9 ''900'' ''100'' ''800'',
        sample_week 10 ''800'' ''100'' ''700'',
        sample_week 11 ''700'' ''100'' ''600'',
        sample_week 12 ''600'' ''100'' ''500'',
        sample_week 13 ''500'' ''100'' ''400''],
      summary = \<lparr>lowest_cash_week = 13, lowest_cash_amount = ''400'',
                 total_cash_in = ''0'', total_cash_out = ''1300'', runway_weeks = 13\<rparr>\<rparr>"

definition sample_scenario :: ForecastResponse where
  "sample_scenario =
     \<lparr>starting_cash = ''1700'', forecast_start_date = ''2025-01-06'',
      weeks =
       [sample_week 1 ''1700'' ''100'' ''1600'',
        sample_week 2 ''1600'' ''150'' ''1450'',
        sample_week 3 ''1450'' ''100'' ''1350'',
        sample_week 4 ''1350'' ''100'' ''1250'',
        sample_week 5 ''1250'' ''100'' ''1150'',
        sample_week 6 ''1150'' ''100'' ''1050'',
        sample_week 7 ''1050'' ''100'' ''950'',
        sample_week 8 ''950'' ''100'' ''850'',
        sample_week 9 ''850'' ''100'' ''750'',
        sample_week 10 ''750'' ''100'' ''650'',
        sample_week 11 ''650'' ''100'' ''550'',
        sample_week 12 ''550'' ''100'' ''450'',
        sample_week 13 ''450'' ''100'' ''350''],
      summary = \<lparr>lowest_cash_week = 13, lowest_cash_amount = ''350'',
                 total_cash_in = ''0'', total_cash_out = ''1350'', runway_weeks = 13\<rparr>\<rparr>"

definition sample_cents :: ForecastResponse where
  "sample_cents =
     \<lparr>starting_cash = ''1.0'', forecast_start_date = ''2025-01-06'',
      weeks =
       [sample_week 1 ''1.0'' ''0.1'' ''0.9'',
        sample_week 2 ''0.9'' ''0.2'' ''0.7'',
        sample_week 3 ''0.7'' ''0.0'' ''0.7'',
        sample_week 4 ''0.7'' ''0.0'' ''0.7'',
        sample_week 5 ''0.7'' ''0.0'' ''0.7'',
        sample_week 6 ''0.7'' ''0.0'' ''0.7'',
        sample_week 7 ''0.7'' ''0.0'' ''0.7'',
        sample_week 8 ''0.7'' ''0.0'' ''0.7'',
        sample_week 9 ''0.7'' ''0.0'' ''0.7'',
        sample_week 10 ''0.7'' ''0.0'' ''0.7'',
        sample_week 11 ''0.7'' ''0.0'' ''0.7'',
        sample_week 12 ''0.7'' ''0.0'' ''0.7'',
        sample_week 13 ''0.7'' ''0.0'' ''0.7''],
      summary = \<lparr>lowest_cash_week = 2, lowest_cash_amount = ''0.7'',
                 total_cash_in = ''0'', total_cash_out = ''0.3'', runway_weeks = 13\<rparr>\<rparr>"




definition sample_comparison :: ScenarioComparisonResponse where
  "sample_comparison =
     \<lparr>base_forecast = sample_base, scenario_forecast = sample_scenario,
      rule_evaluations = Some [], suggested_scenarios = []\<rparr>"

definition sample_noop :: ScenarioComparisonResponse where
  "sample_noop =
     \<lparr>base_forecast = sample_base, scenario_forecast = sample_base,
      rule_evaluations = Some [], suggested_scenarios = []\<rparr>"

definition sample_rule :: "string \<Rightarrow> jsnum \<Rightarrow> FinancialRule" where
  "sample_rule ident m =
     \<lparr>rule_ident = ident, rule_user_id = ''u1'', rule_type = ''minimum_cash_buffer'',
      rule_title = ''Minimum Cash Buffer'', rule_description = None,
      threshold_config = \<lparr>months = Some m\<rparr>, is_active = True,
      evaluation_scope = ''all''\<rparr>"

definition sample_client :: "string \<Rightarrow> string option \<Rightarrow> Client" where
  "sample_client ident amt =
     \<lparr>client_ident = ident, client_name = ident, status = active,
      payment_behavior = on_time, churn_risk = low,
      billing_config = Some \<lparr>amount = amt, payment_terms = None\<rparr>\<rparr>"

definition sample_user :: User where
  "sample_user = \<lparr>user_ident = ''u1'', email = ''owner@example.com''\<rparr>"



definition sample_events :: "CashEvent list" where
  "sample_events =
     [\<lparr>event_date = 3, event_amount = 50, direction = dir_out\<rparr>,
      \<lparr>event_date = 8, event_amount = 70, direction = dir_out\<rparr>,
      \<lparr>event_date = 20, event_amount = 30, direction = dir_in\<rparr>]"


section \<open>Facts about the number model\<close>

lemma bitlen_One: "bitlen 1 = 1"
  by (simp add: bitlen_alt_def)

lemma bitlen_numeral_One: "bitlen (numeral Num.One) = 1"
  by (simp add: bitlen_alt_def)

lemma bitlen_Bit0: "bitlen (numeral (Num.Bit0 n)) = bitlen (numeral n) + 1"
  by (subst compute_bitlen) simp

lemma bitlen_Bit1: "bitlen (numeral (Num.Bit1 n)) = bitlen (numeral n) + 1"
  by (subst compute_bitlen) simp

lemma floor_rat_numeral_div: "\<lfloor>(numeral a :: rat) / numeral b\<rfloor> = numeral a div numeral b"
  using floor_divide_of_int_eq [of "numeral a" "numeral b", where ?'a = rat] by simp

lemma floor_rat_one_div: "\<lfloor>(1 :: rat) / numeral b\<rfloor> = 1 div numeral b"
  using floor_divide_of_int_eq [of 1 "numeral b", where ?'a = rat] by simp

lemmas rnd64_eval =
  rnd64_def ilog2_def pow2_def round_half_even_def Let_def
  bitlen_One bitlen_numeral_One bitlen_Bit0 bitlen_Bit1
  floor_rat_numeral_div floor_rat_one_div

lemma round_half_even_of_int: "round_half_even (of_int j) = j"
  by (simp add: round_half_even_def)

lemma ilog2_of_int: "1 \<le> m \<Longrightarrow> ilog2 (of_int m) = bitlen m - 1"
  by (simp add: ilog2_def)

lemma bitlen_le_54:
  assumes "1 \<le> m" "m \<le> 2 ^ 53"
  shows "1 \<le> bitlen m" "bitlen m \<le> 54"
proof -
  have pos: "0 < m" using assms by simp
  from bitlen_bounds [OF pos] have lo: "2 ^ nat (bitlen m - 1) \<le> m" by simp
  show "1 \<le> bitlen m" using pos by (simp add: bitlen_alt_def)
  have "(2::int) ^ nat (bitlen m - 1) \<le> 2 ^ 53"
    using lo assms(2) by (rule order.trans)
  also have "(2::int) ^ 53 < 2 ^ 54" by simp
  finally have "(2::int) ^ nat (bitlen m - 1) < 2 ^ 54" .
  then have "nat (bitlen m - 1) < 54"
    by (rule power_less_imp_less_exp [rotated]) simp
  then show "bitlen m \<le> 54" by simp
qed

lemma rnd64_pos_int:
  assumes "1 \<le> m" "m \<le> 2 ^ 53"
  shows "rnd64 (of_int m) = Fin (of_int m)"
proof -
  have pos: "0 < m" using assms by simp
  define e where "e = bitlen m - 1"
  have e: "0 \<le> e" "e \<le> 53" using bitlen_le_54 [OF assms] by (simp_all add: e_def)
  have il: "ilog2 (rat_of_int m) = e" using assms ilog2_of_int [of m] by (simp add: e_def)
  have small: "rat_of_int m < pow2 1024"
  proof -
    have "rat_of_int m \<le> 2 ^ 53"
      using assms(2) by (metis of_int_le_iff of_int_numeral of_int_power)
    also have "\<dots> < (2::rat) ^ 1024" by (simp add: power_strict_increasing_iff)
    finally show ?thesis by (simp add: pow2_def)
  qed
  have v: "rat_of_int (round_half_even (rat_of_int m / pow2 (e - 52))) * pow2 (e - 52)
           = rat_of_int m"
  proof (cases "e \<le> 52")
    case True
    define k where "k = nat (52 - e)"
    have p: "pow2 (e - 52) = 1 / 2 ^ k"
    proof (cases "e = 52")
      case True then show ?thesis by (simp add: pow2_def k_def)
    next
      case False
      with \<open>e \<le> 52\<close> have "\<not> 0 \<le> e - 52" by simp
      then show ?thesis by (simp add: pow2_def k_def)
    qed
    have "rat_of_int m / pow2 (e - 52) = rat_of_int (m * 2 ^ k)" by (simp add: p)
    then have "round_half_even (rat_of_int m / pow2 (e - 52)) = m * 2 ^ k"
      by (simp only: round_half_even_of_int)
    then show ?thesis by (simp add: p)
  next
    case False
    with e have e53: "e = 53" by simp
    from bitlen_bounds [OF pos] have "2 ^ nat (bitlen m - 1) \<le> m" by simp
    then have "2 ^ 53 \<le> m" using e53 by (simp add: e_def)
    with assms(2) have m: "m = 2 ^ 53" by simp
    have "rat_of_int m / pow2 (e - 52) = rat_of_int (2 ^ 52)" by (simp add: m e53 pow2_def)
    then have "round_half_even (rat_of_int m / pow2 (e - 52)) = 2 ^ 52"
      by (simp only: round_half_even_of_int)
    then show ?thesis by (simp add: m e53 pow2_def)
  qed
  have mx: "max (e - 52) (- 1074) = e - 52" using e by simp
  have ab: "\<bar>rat_of_int m\<bar> = rat_of_int m" using pos by simp
  show ?thesis
    unfolding rnd64_def Let_def ab il mx v using pos small by simp
qed

lemma rnd64_minus: "rnd64 (- q) = js_neg (rnd64 q)"
  by (simp add: rnd64_def Let_def)

lemma rnd64_int:
  assumes "\<bar>n\<bar> \<le> 2 ^ 53"
  shows "rnd64 (of_int n) = Fin (of_int n)"
proof -
  consider "n = 0" | "1 \<le> n" | "n \<le> - 1" by linarith
  then show ?thesis
  proof cases
    case 1 then show ?thesis by (simp add: rnd64_def)
  next
    case 2 with assms show ?thesis by (intro rnd64_pos_int) simp_all
  next
    case 3
    with assms have "rnd64 (of_int (- n)) = Fin (of_int (- n))"
      by (intro rnd64_pos_int) simp_all
    then have "js_neg (rnd64 (of_int n)) = Fin (- of_int n)" by (simp add: rnd64_minus)
    then show ?thesis by (cases "rnd64 (rat_of_int n)") simp_all
  qed
qed

lemma rnd64_numeral: "numeral k \<le> (2 ^ 53 :: int) \<Longrightarrow> rnd64 (numeral k) = Fin (numeral k)"
  using rnd64_int [of "numeral k"] by simp

lemma rnd64_neg_numeral:
  "numeral k \<le> (2 ^ 53 :: int) \<Longrightarrow> rnd64 (- numeral k) = Fin (- numeral k)"
  using rnd64_int [of "- numeral k"] by simp

lemma rnd64_zero: "rnd64 0 = Fin 0"
  by (simp add: rnd64_def)

lemma rnd64_one: "rnd64 1 = Fin 1"
  using rnd64_int [of 1] by simp

lemmas rnd64_whole = rnd64_numeral rnd64_neg_numeral rnd64_zero rnd64_one

lemma js_add_int:
  "\<bar>a + b\<bar> \<le> 2 ^ 53 \<Longrightarrow> js_add (Fin (of_int a)) (Fin (of_int b)) = Fin (of_int (a + b))"
  using rnd64_int [of "a + b"] by simp

lemma js_sub_int:
  "\<bar>a - b\<bar> \<le> 2 ^ 53 \<Longrightarrow> js_sub (Fin (of_int a)) (Fin (of_int b)) = Fin (of_int (a - b))"
  using rnd64_int [of "a - b"] by (simp add: js_sub_def)

lemma js_mul_int:
  "\<bar>a * b\<bar> \<le> 2 ^ 53 \<Longrightarrow> js_mul (Fin (of_int a)) (Fin (of_int b)) = Fin (of_int (a * b))"
  using rnd64_int [of "a * b"] by simp

lemma js_sub_self: "js_sub (Fin a) (Fin a) = Fin 0"
  by (simp add: js_sub_def rnd64_zero)

lemma pow2_powi: "pow2 k = 2 powi k"
  by (simp add: pow2_def power_int_def inverse_eq_divide power_one_over)



lemma pow2_less: "i < j \<Longrightarrow> pow2 i < pow2 j"
  by (simp add: pow2_powi power_int_strict_increasing)










lemmas parse_eval =
  parseFloat_def parseInt_def exponent_part_def has_sign_def is_negative_def
  is_ws_def is_digit_def digit_val_def is_hex_digit_def hex_digit_val_def pow10_def
  or_str_def or_num_def at_index_def Let_def


section \<open>Forecast engine: balances and runway\<close>

lemma project_weeks_length: "length (project_weeks b es d k n) = n"
  by (induction n arbitrary: b k) (simp_all add: Let_def)

lemma project_weeks_balanced:
  "i < n \<Longrightarrow>
   week_ending_balance (project_weeks b es d k n ! i) =
     week_starting_balance (project_weeks b es d k n ! i)
     + week_cash_in (project_weeks b es d k n ! i)
     - week_cash_out (project_weeks b es d k n ! i)"
proof (induction n arbitrary: b k i)
  case 0
  then show ?case by simp
next
  case (Suc n)
  then show ?case by (cases i) (simp_all add: Let_def)
qed

lemma project_weeks_first:
  "0 < n \<Longrightarrow> week_starting_balance (project_weeks b es d k n ! 0) = b"
  by (cases n) (simp_all add: Let_def)

lemma project_weeks_chained:
  "Suc i < n \<Longrightarrow>
   week_starting_balance (project_weeks b es d k n ! Suc i) =
     week_ending_balance (project_weeks b es d k n ! i)"
proof (induction n arbitrary: b k i)
  case 0
  then show ?case by simp
next
  case (Suc n)
  show ?case
  proof (cases i)
    case 0
    with Suc.prems have "0 < n" by simp
    then show ?thesis using 0 by (simp add: Let_def project_weeks_first)
  next
    case (Suc j)
    with Suc.prems have "Suc j < n" by simp
    then show ?thesis using Suc Suc.IH by (simp add: Let_def)
  qed
qed

lemma first_breach_None:
  "first_breach k ws = None \<longleftrightarrow> (\<forall>i<length ws. 0 < week_ending_balance (ws ! i))"
proof (induction ws arbitrary: k)
  case Nil
  then show ?case by simp
next
  case (Cons w ws)
  show ?case
  proof (cases "week_ending_balance w \<le> 0")
    case True
    then show ?thesis by (auto intro: exI [of _ 0])
  next
    case False
    then show ?thesis by (auto simp: Cons.IH less_Suc_eq_0_disj)
  qed
qed

lemma first_breach_Some:
  "first_breach k ws = Some r \<Longrightarrow>
   k \<le> r \<and> r - k < length ws \<and> week_ending_balance (ws ! (r - k)) \<le> 0
   \<and> (\<forall>j<r - k. 0 < week_ending_balance (ws ! j))"
proof (induction ws arbitrary: k)
  case Nil
  then show ?case by simp
next
  case (Cons w ws)
  show ?case
  proof (cases "week_ending_balance w \<le> 0")
    case True
    with Cons.prems show ?thesis by simp
  next
    case False
    with Cons.prems have fb: "first_breach (k + 1) ws = Some r" by simp
    from Cons.IH [OF fb] have ih:
      "k + 1 \<le> r" "r - (k + 1) < length ws"
      "week_ending_balance (ws ! (r - (k + 1))) \<le> 0"
      "\<forall>j<r - (k + 1). 0 < week_ending_balance (ws ! j)" by simp_all
    from ih(1) obtain m where m: "r - k = Suc m" "r - (k + 1) = m"
      by (metis Suc_diff_Suc Suc_eq_plus1 Suc_le_lessD diff_diff_left)
    show ?thesis
      using ih False unfolding m by (auto simp: less_Suc_eq_0_disj)
  qed
qed

lemma projected_weeks_compute:
  "projected_weeks (compute_forecast starting es d) = project_weeks starting es d 0 13"
  by (simp add: compute_forecast_def Let_def)

lemma runway_compute:
  "runway (projection_summary (compute_forecast starting es d))
   = first_breach 0 (project_weeks starting es d 0 13)"
  by (simp add: compute_forecast_def summarise_def Let_def)

text \<open>
  C1. In every forecast that the engine computes there are 13 weeks, each week ends
  with its starting balance plus its cash in minus its cash out, and each of the first
  12 weeks hands its ending balance to the next week as the starting balance.
\<close>

theorem forecast_weeks_balance_and_chain:
  "length (projected_weeks (compute_forecast starting es d)) = 13
   \<and> (\<forall>i<13.
        week_ending_balance (projected_weeks (compute_forecast starting es d) ! i) =
          week_starting_balance (projected_weeks (compute_forecast starting es d) ! i)
          + week_cash_in (projected_weeks (compute_forecast starting es d) ! i)
          - week_cash_out (projected_weeks (compute_forecast starting es d) ! i))
   \<and> (\<forall>i<12.
        week_starting_balance (projected_weeks (compute_forecast starting es d) ! (i + 1)) =
          week_ending_balance (projected_weeks (compute_forecast starting es d) ! i))"
  by (simp add: projected_weeks_compute project_weeks_length project_weeks_balanced
      project_weeks_chained)

theorem forecast_weeks_balance_and_chain_witness:
  "(1::nat) < 13 \<and> (1::nat) < 12
   \<and> week_ending_balance (projected_weeks (compute_forecast 100 sample_events 0) ! 1) =
       week_starting_balance (projected_weeks (compute_forecast 100 sample_events 0) ! 1)
       + week_cash_in (projected_weeks (compute_forecast 100 sample_events 0) ! 1)
       - week_cash_out (projected_weeks (compute_forecast 100 sample_events 0) ! 1)
   \<and> week_starting_balance (projected_weeks (compute_forecast 100 sample_events 0) ! 2) =
       week_ending_balance (projected_weeks (compute_forecast 100 sample_events 0) ! 1)
   \<and> week_ending_balance (projected_weeks (compute_forecast 100 sample_events 0) ! 1) = - 20"
proof -
  note c1 = forecast_weeks_balance_and_chain [of 100 sample_events 0]
  note a = c1 [THEN conjunct2, THEN conjunct1, rule_format, of 1]
  note b = c1 [THEN conjunct2, THEN conjunct2, rule_format, of 1]
  have c: "week_ending_balance (projected_weeks (compute_forecast 100 sample_events 0) ! 1) = - 20"
    by (simp add: projected_weeks_compute sample_events_def eval_nat_numeral Let_def
        in_week_def direction_total_def)
  from a b c show ?thesis by (simp add: numeral_2_eq_2)
qed

text \<open>
  C5. The runway in the summary of a computed forecast is the first week index whose
  ending balance is at most 0, and it is null exactly when all 13 ending balances are
  above 0. Indices count the weeks from 0.
\<close>

theorem runway_is_first_breach:
  "(runway (projection_summary (compute_forecast starting es d)) = None
      \<longleftrightarrow> (\<forall>i<13. 0 < week_ending_balance (projected_weeks (compute_forecast starting es d) ! i)))
   \<and> (\<forall>r. runway (projection_summary (compute_forecast starting es d)) = Some r \<longrightarrow>
          r < 13
          \<and> week_ending_balance (projected_weeks (compute_forecast starting es d) ! r) \<le> 0
          \<and> (\<forall>j<r. 0 < week_ending_balance (projected_weeks (compute_forecast starting es d) ! j)))"
proof -
  let ?ws = "project_weeks starting es d 0 13"
  have ws: "projected_weeks (compute_forecast starting es d) = ?ws"
    and rw: "runway (projection_summary (compute_forecast starting es d)) = first_breach 0 ?ws"
    by (simp_all add: projected_weeks_compute runway_compute)
  have len: "length ?ws = 13" by (rule project_weeks_length)
  have none: "first_breach 0 ?ws = None \<longleftrightarrow> (\<forall>i<13. 0 < week_ending_balance (?ws ! i))"
    using first_breach_None [of 0 ?ws] by (simp only: len)
  have some: "\<forall>r. first_breach 0 ?ws = Some r \<longrightarrow>
      r < 13 \<and> week_ending_balance (?ws ! r) \<le> 0 \<and> (\<forall>j<r. 0 < week_ending_balance (?ws ! j))"
  proof (intro allI impI)
    fix r assume "first_breach 0 ?ws = Some r"
    from first_breach_Some [OF this] show
      "r < 13 \<and> week_ending_balance (?ws ! r) \<le> 0 \<and> (\<forall>j<r. 0 < week_ending_balance (?ws ! j))"
      by (simp only: len diff_zero) simp
  qed
  show ?thesis unfolding ws rw using none some by blast
qed

theorem runway_is_first_breach_witness:
  "runway (projection_summary (compute_forecast 100 sample_events 0)) = Some 1
   \<and> (1::nat) < 13
   \<and> week_ending_balance (projected_weeks (compute_forecast 100 sample_events 0) ! 1) \<le> 0
   \<and> 0 < week_ending_balance (projected_weeks (compute_forecast 100 sample_events 0) ! 0)
   \<and> runway (projection_summary (compute_forecast 100 [] 0)) = None
   \<and> 0 < week_ending_balance (projected_weeks (compute_forecast 100 [] 0) ! 12)"
proof -
  have r1: "runway (projection_summary (compute_forecast 100 sample_events 0)) = Some 1"
    by (simp add: runway_compute sample_events_def eval_nat_numeral Let_def
        in_week_def direction_total_def)
  have r2: "runway (projection_summary (compute_forecast 100 [] 0)) = None"
    by (simp add: runway_compute eval_nat_numeral Let_def
        in_week_def direction_total_def)
  from runway_is_first_breach [of 100 sample_events 0] r1
  have a: "(1::nat) < 13
   \<and> week_ending_balance (projected_weeks (compute_forecast 100 sample_events 0) ! 1) \<le> 0
   \<and> (\<forall>j<1. 0 < week_ending_balance (projected_weeks (compute_forecast 100 sample_events 0) ! j))"
    by blast
  then have a0:
    "0 < week_ending_balance (projected_weeks (compute_forecast 100 sample_events 0) ! 0)"
    by simp
  from runway_is_first_breach [of 100 "[]" 0] r2
  have "\<forall>i<13. 0 < week_ending_balance (projected_weeks (compute_forecast 100 [] 0) ! i)"
    by blast
  then have b: "0 < week_ending_balance (projected_weeks (compute_forecast 100 [] 0) ! 12)"
    by simp
  from r1 r2 a a0 b show ?thesis by blast
qed



section \<open>Scenario page: week-13 impact and cash buffer\<close>

lemmas sample_forecasts =
  sample_base_def sample_scenario_def sample_cents_def sample_week_def
  sample_comparison_def sample_noop_def sample_rule_def





lemma expenses4_four:
  "expenses4 (w0 # w1 # w2 # w3 # ws) =
     js_add (js_add (js_add (js_add (Fin 0)
       (parseFloat (or_str (Some (cash_out w0)) ''0'')))
       (parseFloat (or_str (Some (cash_out w1)) ''0'')))
       (parseFloat (or_str (Some (cash_out w2)) ''0'')))
       (parseFloat (or_str (Some (cash_out w3)) ''0''))"
  by (simp add: expenses4_def)

lemma four_or_more:
  "4 \<le> length xs \<Longrightarrow> \<exists>a b c d ys. xs = a # b # c # d # ys"
  by (auto simp: numeral_eq_Suc Suc_le_length_iff)

lemma sample_base_expenses: "expenses4 (weeks sample_base) = Fin 400"
  by (simp add: expenses4_def sample_forecasts parse_eval rnd64_whole)

lemma sample_base_lowest: "parseFloat (lowest_cash_amount (summary sample_base)) = Fin 400"
  by (simp add: sample_forecasts parse_eval rnd64_whole)

lemma sample_rule_found: "bufferRule [sample_rule i m] = Some (sample_rule i m)"
  by (simp add: bufferRule_def sample_rule_def)

lemma sample_rule_months: "months (threshold_config (sample_rule i m)) = Some m"
  by (simp add: sample_rule_def)

text \<open>
  C3, as stated, fails for a rule configured with 0 months: the target is three times the
  four-week total, not zero times.
\<close>

theorem buffer_target_zero_months_counterexample:
  "bufferRule [sample_rule ''r1'' (Fin 0)] = Some (sample_rule ''r1'' (Fin 0))
   \<and> months (threshold_config (sample_rule ''r1'' (Fin 0))) = Some (Fin 0)
   \<and> expenses4 (weeks sample_base) = Fin 400
   \<and> js_mul (expenses4 (weeks sample_base)) (Fin 0) = Fin 0
   \<and> bufferAmount [sample_rule ''r1'' (Fin 0)] (Some sample_base) = Fin 1200"
  by (simp add: sample_rule_found sample_rule_months sample_base_expenses bufferAmount_def
      monthlyExpenses_def bufferMonths_def or_num_def rnd64_whole)

text \<open>
  C3, amended. For a loaded forecast the buffer target is the total of the parsed
  \<^verbatim>\<open>cash_out\<close> of the first four forecast weeks, added up from 0 in that order,
  times a month count. The month count is that of the first
  \<^verbatim>\<open>minimum_cash_buffer\<close> rule among the loaded rules when it is a number other
  than 0 and \<open>NaN\<close>; it is 3 when that number is 0 or \<open>NaN\<close>.
\<close>

theorem buffer_target_is_expenses_times_months:
  assumes "bufferRule rules = Some r"
    and "months (threshold_config r) = Some m"
  shows "r \<in> set rules \<and> rule_type r = ''minimum_cash_buffer''
         \<and> bufferAmount rules (Some f) =
             js_mul (expenses4 (weeks f)) (if js_truthy m then m else Fin 3)
         \<and> (4 \<le> length (weeks f) \<longrightarrow>
              expenses4 (weeks f) =
                js_add (js_add (js_add (js_add (Fin 0)
                  (parseFloat (or_str (Some (cash_out (weeks f ! 0))) ''0'')))
                  (parseFloat (or_str (Some (cash_out (weeks f ! 1))) ''0'')))
                  (parseFloat (or_str (Some (cash_out (weeks f ! 2))) ''0'')))
                  (parseFloat (or_str (Some (cash_out (weeks f ! 3))) ''0'')))"
proof -
  from assms(1) have r: "r \<in> set rules \<and> rule_type r = ''minimum_cash_buffer''"
    by (auto simp: bufferRule_def find_Some_iff)
  have b: "bufferAmount rules (Some f) =
             js_mul (expenses4 (weeks f)) (if js_truthy m then m else Fin 3)"
    using assms by (simp add: bufferAmount_def monthlyExpenses_def bufferMonths_def or_num_def)
  have e: "4 \<le> length (weeks f) \<longrightarrow>
              expenses4 (weeks f) =
                js_add (js_add (js_add (js_add (Fin 0)
                  (parseFloat (or_str (Some (cash_out (weeks f ! 0))) ''0'')))
                  (parseFloat (or_str (Some (cash_out (weeks f ! 1))) ''0'')))
                  (parseFloat (or_str (Some (cash_out (weeks f ! 2))) ''0'')))
                  (parseFloat (or_str (Some (cash_out (weeks f ! 3))) ''0''))"
  proof
    assume "4 \<le> length (weeks f)"
    then obtain w0 w1 w2 w3 ws where "weeks f = w0 # w1 # w2 # w3 # ws"
      using four_or_more by blast
    then show "expenses4 (weeks f) =
                js_add (js_add (js_add (js_add (Fin 0)
                  (parseFloat (or_str (Some (cash_out (weeks f ! 0))) ''0'')))
                  (parseFloat (or_str (Some (cash_out (weeks f ! 1))) ''0'')))
                  (parseFloat (or_str (Some (cash_out (weeks f ! 2))) ''0'')))
                  (parseFloat (or_str (Some (cash_out (weeks f ! 3))) ''0''))"
      by (simp add: expenses4_four)
  qed
  from r b e show ?thesis by simp
qed

theorem buffer_target_is_expenses_times_months_witness:
  "bufferRule [sample_rule ''r1'' (Fin 2)] = Some (sample_rule ''r1'' (Fin 2))
   \<and> months (threshold_config (sample_rule ''r1'' (Fin 2))) = Some (Fin 2)
   \<and> 4 \<le> length (weeks sample_base)
   \<and> expenses4 (weeks sample_base) = Fin 400
   \<and> bufferAmount [sample_rule ''r1'' (Fin 2)] (Some sample_base) = Fin 800"
proof -
  have l: "4 \<le> length (weeks sample_base)" by (simp add: sample_forecasts)
  from buffer_target_is_expenses_times_months
    [OF sample_rule_found sample_rule_months, of "''r1''" "Fin 2" sample_base]
  have "bufferAmount [sample_rule ''r1'' (Fin 2)] (Some sample_base) = Fin 800"
    by (simp add: sample_base_expenses rnd64_whole)
  with l show ?thesis
    by (simp add: sample_rule_found sample_rule_months sample_base_expenses)
qed

text \<open>
  C4. With no comparison loaded, the page reports the buffer as safe when the lowest
  projected cash amount is strictly above the target. At the boundary, lowest balance 400
  against a target of 400, it reports the buffer at risk, while the dashboard shows
  the badge for a safe buffer on the same data.
\<close>

theorem buffer_boundary_reported_at_risk:
  "parseFloat (lowest_cash_amount (summary sample_base)) = Fin 400
   \<and> bufferAmount [sample_rule ''r1'' (Fin 1)] (Some sample_base) = Fin 400
   \<and> \<not> isBufferSafe None [sample_rule ''r1'' (Fin 1)] (Some sample_base)
   \<and> dashboardBadge [sample_rule ''r1'' (Fin 1)] (Some sample_base) (Fin 1700) = Cash_Buffer_Safe"
proof -
  have m: "bufferMonths [sample_rule ''r1'' (Fin 1)] = Fin 1"
    by (simp add: bufferMonths_def sample_rule_found sample_rule_months or_num_def)
  have b: "bufferAmount [sample_rule ''r1'' (Fin 1)] (Some sample_base) = Fin 400"
    by (simp add: bufferAmount_def monthlyExpenses_def m sample_base_expenses rnd64_whole)
  have s: "\<not> isBufferSafe None [sample_rule ''r1'' (Fin 1)] (Some sample_base)"
    by (simp add: isBufferSafe_def b sample_base_lowest js_gt_def)
  have low: "lowestBalance (Some sample_base) (Fin 1700) = Fin 400"
    using sample_base_lowest by (simp add: lowestBalance_def sample_forecasts)
  have d: "dashboardBufferAmount [sample_rule ''r1'' (Fin 1)] (Some sample_base) = Fin 400"
    by (simp add: dashboardBufferAmount_def totalExpenses30D_def m sample_base_expenses
        or_num_def rnd64_whole)
  have "dashboardBadge [sample_rule ''r1'' (Fin 1)] (Some sample_base) (Fin 1700) = Cash_Buffer_Safe"
    by (simp add: dashboardBadge_def isBreach_def isAtRisk_def low d js_gt_def)
  with b s sample_base_lowest show ?thesis by simp
qed



section \<open>Scenario page: concentration suggestions\<close>

lemma foldl_append_concat:
  "foldl (\<lambda>generated x. generated @ f x) acc xs = acc @ concat (map f xs)"
  by (induction xs arbitrary: acc) simp_all

lemma concentrationSuggestions_concat:
  "concentrationSuggestions clients =
     concat (map (concentrationFor (totalClientIncome clients)) clients)"
  by (simp add: concentrationSuggestions_def foldl_append_concat)

lemma foldl_extends:
  assumes "\<And>g x. \<exists>r. step g x = g @ r"
  shows "\<exists>rest. foldl step generated xs = generated @ rest"
proof (induction xs arbitrary: generated)
  case Nil
  then show ?case by simp
next
  case (Cons x xs)
  from assms obtain r where r: "step generated x = generated @ r" by blast
  from Cons.IH [of "generated @ r"] obtain rest
    where "foldl step (generated @ r) xs = (generated @ r) @ rest" by blast
  with r show ?case by simp
qed

lemma churnSuggestions_extends: "\<exists>rest. churnSuggestions clients generated = generated @ rest"
  unfolding churnSuggestions_def by (rule foldl_extends) simp

lemma delaySuggestions_extends: "\<exists>rest. delaySuggestions clients generated = generated @ rest"
  unfolding delaySuggestions_def by (rule foldl_extends) simp

lemma fillDefaults_extends: "\<exists>rest. fillDefaults generated ds = generated @ rest"
proof (induction ds arbitrary: generated)
  case Nil
  then show ?case by simp
next
  case (Cons d ds)
  show ?case
  proof (cases "length generated < 3")
    case False
    then show ?thesis by simp
  next
    case True
    show ?thesis
    proof (cases "List.find (\<lambda>s. scenario_type s = scenario_type d) generated = None")
      case True
      from Cons.IH [of "generated @ [d]"] obtain rest
        where "fillDefaults (generated @ [d]) ds = (generated @ [d]) @ rest" by blast
      with True \<open>length generated < 3\<close> show ?thesis by simp
    next
      case False
      with \<open>length generated < 3\<close>
      have "fillDefaults generated (d # ds) = fillDefaults generated ds"
        by (simp del: not_None_eq)
      with Cons.IH [of generated] show ?thesis by simp
    qed
  qed
qed

lemma generateSuggestedScenarios_extends:
  "\<exists>rest. generateSuggestedScenarios clients = take 3 (concentrationSuggestions clients @ rest)"
proof -
  obtain r1 where r1: "churnSuggestions clients (concentrationSuggestions clients)
      = concentrationSuggestions clients @ r1"
    using churnSuggestions_extends by blast
  obtain r2 where r2: "delaySuggestions clients (concentrationSuggestions clients @ r1)
      = (concentrationSuggestions clients @ r1) @ r2"
    using delaySuggestions_extends by blast
  obtain r3 where r3: "fillDefaults ((concentrationSuggestions clients @ r1) @ r2) defaultScenarios
      = ((concentrationSuggestions clients @ r1) @ r2) @ r3"
    using fillDefaults_extends by blast
  have "generateSuggestedScenarios clients
      = take 3 (concentrationSuggestions clients @ (r1 @ r2 @ r3))"
    unfolding generateSuggestedScenarios_def r1 r2 r3 by simp
  then show ?thesis by blast
qed

lemmas suggestion_eval =
  generateSuggestedScenarios_def concentrationSuggestions_def churnSuggestions_def
  delaySuggestions_def defaultScenarios_def concentrationFor_def concentration_def
  has_suggestion_def js_gt_def

lemma sample_amount_50: "clientAmount (sample_client i (Some ''50'')) = Fin 50"
  by (simp add: clientAmount_def sample_client_def parse_eval rnd64_whole)

lemma sample_amount_30: "clientAmount (sample_client i (Some ''30'')) = Fin 30"
  by (simp add: clientAmount_def sample_client_def parse_eval rnd64_whole)

lemma sample_amount_20: "clientAmount (sample_client i (Some ''20'')) = Fin 20"
  by (simp add: clientAmount_def sample_client_def parse_eval rnd64_whole)

lemma sample_amount_0: "clientAmount (sample_client i (Some ''0'')) = Fin 0"
  by (simp add: clientAmount_def sample_client_def parse_eval rnd64_whole)

lemma sample_amount_missing: "clientAmount (sample_client i None) = Fin 0"
  by (simp add: clientAmount_def sample_client_def parse_eval rnd64_whole)

lemmas sample_amounts =
  sample_amount_50 sample_amount_30 sample_amount_20 sample_amount_0 sample_amount_missing

lemma sample_total_two:
  "totalClientIncome [sample_client ''A'' (Some ''50''), sample_client ''B'' (Some ''50'')] = Fin 100"
  by (simp add: totalClientIncome_def sample_amounts rnd64_whole)

lemma sample_total_three:
  "totalClientIncome [sample_client ''A'' (Some ''50''), sample_client ''B'' (Some ''30''),
     sample_client ''C'' (Some ''20'')] = Fin 100"
  by (simp add: totalClientIncome_def sample_amounts rnd64_whole)

lemma sample_share_50:
  "concentration (Fin 100) (sample_client i (Some ''50'')) = Fin 50"
  by (simp add: concentration_def js_gt_def sample_amounts rnd64_eval)

lemma sample_share_30:
  "concentration (Fin 100) (sample_client i (Some ''30'')) = Fin 30"
  by (simp add: concentration_def js_gt_def sample_amounts rnd64_eval)

lemma sample_share_20:
  "concentration (Fin 100) (sample_client i (Some ''20'')) = Fin 20"
  by (simp add: concentration_def js_gt_def sample_amounts rnd64_eval)

lemma sample_client_fields:
  "client_ident (sample_client i a) = i" "client_name (sample_client i a) = i"
  "churn_risk (sample_client i a) = low" "payment_behavior (sample_client i a) = on_time"
  by (simp_all add: sample_client_def)

text \<open>
  C6, as stated, fails through the limit of three suggestions: of two clients with half
  of the revenue each, the second gets its late-payment suggestion but no
  \<^verbatim>\<open>client_loss\<close> suggestion.
\<close>

theorem concentration_second_client_counterexample:
  "js_gt (totalClientIncome
            [sample_client ''A'' (Some ''50''), sample_client ''B'' (Some ''50'')]) (Fin 0)
   \<and> concentration
         (totalClientIncome
            [sample_client ''A'' (Some ''50''), sample_client ''B'' (Some ''50'')])
         (sample_client ''B'' (Some ''50'')) = Fin 50
   \<and> has_suggestion
         (generateSuggestedScenarios
            [sample_client ''A'' (Some ''50''), sample_client ''B'' (Some ''50'')])
         ''B'' payment_delay_in
   \<and> \<not> has_suggestion
         (generateSuggestedScenarios
            [sample_client ''A'' (Some ''50''), sample_client ''B'' (Some ''50'')])
         ''B'' client_loss"
proof -
  have c: "concentrationFor (Fin 100) (sample_client ''A'' (Some ''50'')) =
      [\<lparr>scenario_type = payment_delay_in, name = ''Late payment from A'',
        description = WithPercent ''A represents '' (Fin 50)
          ''% of your income. A late payment could significantly impact cash flow.'',
        prefill_params = \<lparr>client_id = Some ''A'', delay_days = Some 30\<rparr>,
        priority = priority_high\<rparr>,
       \<lparr>scenario_type = client_loss, name = ''Lose A'',
        description = WithPercent
          ''What happens if you lose your largest client who accounts for '' (Fin 50)
          ''% of revenue?'',
        prefill_params = \<lparr>client_id = Some ''A'', delay_days = None\<rparr>,
        priority = priority_high\<rparr>]"
    by (simp add: concentrationFor_def Let_def sample_share_50 js_gt_def sample_client_fields)
  have d: "map (\<lambda>s. (scenario_type s, client_id (prefill_params s)))
        (concentrationFor (Fin 100) (sample_client ''B'' (Some ''50''))) =
      [(payment_delay_in, Some ''B''), (client_loss, Some ''B'')]"
    by (simp add: concentrationFor_def Let_def sample_share_50 js_gt_def sample_client_fields)
  obtain s1 s2 where s: "concentrationFor (Fin 100) (sample_client ''B'' (Some ''50'')) = [s1, s2]"
    "scenario_type s1 = payment_delay_in" "client_id (prefill_params s1) = Some ''B''"
    by (simp add: concentrationFor_def Let_def sample_share_50 js_gt_def sample_client_fields)
  have g: "generateSuggestedScenarios
            [sample_client ''A'' (Some ''50''), sample_client ''B'' (Some ''50'')]
        = concentrationFor (Fin 100) (sample_client ''A'' (Some ''50'')) @ [s1]"
    by (simp add: generateSuggestedScenarios_def concentrationSuggestions_concat
        sample_total_two s churnSuggestions_def delaySuggestions_def sample_client_fields c
        defaultScenarios_def)
  show ?thesis
    by (simp add: sample_total_two sample_share_50 js_gt_def g c has_suggestion_def s)
qed

text \<open>
  C6, amended. For clients with a positive total billing amount, a client's share is its
  amount divided by the total, times 100, in JavaScript numbers. The first pass
  generates, client by client in list order: for a share above 40 a high-priority
  \<^verbatim>\<open>payment_delay_in\<close> and a high-priority \<^verbatim>\<open>client_loss\<close> suggestion scoped
  to the client; for a share above 25 and not above 40 one medium-priority
  \<^verbatim>\<open>payment_delay_in\<close> suggestion scoped to the client; nothing otherwise. The
  function returns the first three entries of a list that starts with the suggestions of
  this pass.
\<close>

theorem concentration_thresholds:
  assumes "js_gt (totalClientIncome clients) (Fin 0)"
  shows "concentrationSuggestions clients =
           concat (map (concentrationFor (totalClientIncome clients)) clients)
   \<and> (\<forall>client. concentration (totalClientIncome clients) client =
          js_mul (js_div (clientAmount client) (totalClientIncome clients)) (Fin 100))
   \<and> (\<forall>client. js_gt (concentration (totalClientIncome clients) client) (Fin 40) \<longrightarrow>
          map (\<lambda>s. (scenario_type s, client_id (prefill_params s), priority s))
            (concentrationFor (totalClientIncome clients) client) =
          [(payment_delay_in, Some (client_ident client), priority_high),
           (client_loss, Some (client_ident client), priority_high)])
   \<and> (\<forall>client. \<not> js_gt (concentration (totalClientIncome clients) client) (Fin 40)
          \<and> js_gt (concentration (totalClientIncome clients) client) (Fin 25) \<longrightarrow>
          map (\<lambda>s. (scenario_type s, client_id (prefill_params s), priority s))
            (concentrationFor (totalClientIncome clients) client) =
          [(payment_delay_in, Some (client_ident client), priority_medium)])
   \<and> (\<forall>client. \<not> js_gt (concentration (totalClientIncome clients) client) (Fin 25) \<longrightarrow>
          concentrationFor (totalClientIncome clients) client = [])
   \<and> (\<exists>rest. generateSuggestedScenarios clients =
          take 3 (concentrationSuggestions clients @ rest))"
proof -
  have gt: "js_gt (Fin 40) (Fin 25)" by (simp add: js_gt_def)
  have low: "\<And>c. \<not> js_gt c (Fin 25) \<Longrightarrow> \<not> js_gt c (Fin 40)"
  proof -
    fix c show "\<not> js_gt c (Fin 25) \<Longrightarrow> \<not> js_gt c (Fin 40)"
      by (cases c) (simp_all add: js_gt_def)
  qed
  show ?thesis
    using assms generateSuggestedScenarios_extends [of clients] low
    by (simp add: concentrationSuggestions_concat concentration_def concentrationFor_def Let_def)
qed

theorem concentration_thresholds_witness:
  "js_gt (totalClientIncome
       [sample_client ''A'' (Some ''50''), sample_client ''B'' (Some ''30''),
        sample_client ''C'' (Some ''20'')]) (Fin 0)
   \<and> concentration (Fin 100) (sample_client ''A'' (Some ''50'')) = Fin 50
   \<and> map (\<lambda>s. (scenario_type s, client_id (prefill_params s), priority s))
        (concentrationFor (Fin 100) (sample_client ''A'' (Some ''50''))) =
      [(payment_delay_in, Some ''A'', priority_high), (client_loss, Some ''A'', priority_high)]
   \<and> map (\<lambda>s. (scenario_type s, client_id (prefill_params s), priority s))
        (concentrationFor (Fin 100) (sample_client ''B'' (Some ''30''))) =
      [(payment_delay_in, Some ''B'', priority_medium)]
   \<and> concentrationFor (Fin 100) (sample_client ''C'' (Some ''20'')) = []"
proof -
  let ?cs = "[sample_client ''A'' (Some ''50''), sample_client ''B'' (Some ''30''),
        sample_client ''C'' (Some ''20'')]"
  have pos: "js_gt (totalClientIncome ?cs) (Fin 0)"
    by (simp add: sample_total_three js_gt_def)
  note th = concentration_thresholds [OF pos, unfolded sample_total_three]
  note cA = sample_share_50 [of "''A''"]
  note cB = sample_share_30 [of "''B''"]
  note cC = sample_share_20 [of "''C''"]
  have a: "map (\<lambda>s. (scenario_type s, client_id (prefill_params s), priority s))
        (concentrationFor (Fin 100) (sample_client ''A'' (Some ''50''))) =
      [(payment_delay_in, Some ''A'', priority_high), (client_loss, Some ''A'', priority_high)]"
    using th [THEN conjunct2, THEN conjunct2, THEN conjunct1, rule_format,
        of "sample_client ''A'' (Some ''50'')"]
    by (simp add: cA js_gt_def sample_client_fields)
  have b: "map (\<lambda>s. (scenario_type s, client_id (prefill_params s), priority s))
        (concentrationFor (Fin 100) (sample_client ''B'' (Some ''30''))) =
      [(payment_delay_in, Some ''B'', priority_medium)]"
    using th [THEN conjunct2, THEN conjunct2, THEN conjunct2, THEN conjunct1, rule_format,
        of "sample_client ''B'' (Some ''30'')"]
    by (simp add: cB js_gt_def sample_client_fields)
  have c: "concentrationFor (Fin 100) (sample_client ''C'' (Some ''20'')) = []"
    using th [THEN conjunct2, THEN conjunct2, THEN conjunct2, THEN conjunct2, THEN conjunct1,
        rule_format, of "sample_client ''C'' (Some ''20'')"]
    by (simp add: cC js_gt_def)
  from pos cA a b c show ?thesis by simp
qed







section \<open>Arithmetic on amounts\<close>

lemma foldl_js_add_whole:
  "\<bar>a\<bar> + sum_list (map abs ns) \<le> 2 ^ 53 \<Longrightarrow>
   foldl js_add (Fin (of_int a)) (map (\<lambda>n. Fin (of_int n)) ns) = Fin (of_int (a + sum_list ns))"
proof (induction ns arbitrary: a)
  case Nil
  then show ?case by simp
next
  case (Cons n ns)
  have nn: "0 \<le> sum_list (map abs ns)" by (rule sum_list_nonneg) auto
  have "\<bar>a + n\<bar> \<le> 2 ^ 53" using Cons.prems nn by simp
  from rnd64_int [OF this]
  have step: "rnd64 (rat_of_int a + rat_of_int n) = Fin (rat_of_int a + rat_of_int n)"
    by simp
  have "\<bar>a + n\<bar> + sum_list (map abs ns) \<le> 2 ^ 53"
    using Cons.prems by simp
  from Cons.IH [OF this] show ?case
    by (simp add: step add.assoc)
qed

lemma expenses4_as_foldl:
  "expenses4 ws =
     foldl js_add (Fin 0) (map (\<lambda>w. parseFloat (or_str (Some (cash_out w)) ''0'')) (take 4 ws))"
  by (simp add: expenses4_def foldl_map)

text \<open>
  C8, as stated, fails: the pages add parsed amounts as binary64 numbers. With 0.1 and
  0.2 to pay in the first two weeks, the four-week total is not three tenths.
\<close>

theorem decimal_total_counterexample:
  "map cash_out (take 4 (weeks sample_cents)) = [''0.1'', ''0.2'', ''0.0'', ''0.0'']
   \<and> monthlyExpenses (Some sample_cents) = Fin (1351079888211149 / 4503599627370496)
   \<and> monthlyExpenses (Some sample_cents) \<noteq> Fin (3 / 10)"
proof -
  have m: "monthlyExpenses (Some sample_cents) = Fin (1351079888211149 / 4503599627370496)"
    by (simp add: monthlyExpenses_def expenses4_def sample_forecasts parse_eval rnd64_eval)
  have w: "map cash_out (take 4 (weeks sample_cents)) = [''0.1'', ''0.2'', ''0.0'', ''0.0'']"
    by (simp add: sample_forecasts)
  from m w show ?thesis by simp
qed

text \<open>
  C8, amended. The arithmetic on forecast amounts is binary64 arithmetic: every sum,
  difference and product is the exact result rounded to the nearest binary64 number. When
  the parsed amounts are whole numbers the results are exact within \<open>2\<^sup>5\<^sup>3\<close>: the
  four-week total when the absolute amounts add up to at most \<open>2\<^sup>5\<^sup>3\<close>, the buffer
  target when the product with a whole month count is at most \<open>2\<^sup>5\<^sup>3\<close> in
  magnitude, the week-13 difference when it is at most \<open>2\<^sup>5\<^sup>3\<close> in magnitude.
\<close>

theorem whole_amounts_are_exact:
  assumes "map (\<lambda>w. parseFloat (or_str (Some (cash_out w)) ''0'')) (take 4 (weeks f))
           = map (\<lambda>n. Fin (of_int n)) ns"
    and "sum_list (map abs ns) \<le> 2 ^ 53"
    and "bufferMonths rules = Fin (of_int m)"
    and "\<bar>sum_list ns * m\<bar> \<le> 2 ^ 53"
  shows "monthlyExpenses (Some f) = Fin (of_int (sum_list ns))
   \<and> bufferAmount rules (Some f) = Fin (of_int (sum_list ns * m))
   \<and> (\<forall>a b. parseFloat (balance13 (scenario_forecast c)) = Fin (of_int a)
          \<and> parseFloat (balance13 (base_forecast c)) = Fin (of_int b)
          \<and> \<bar>a - b\<bar> \<le> 2 ^ 53 \<longrightarrow> impactWeek13 c = Fin (of_int (a - b)))
   \<and> (\<forall>x y. js_add (Fin x) (Fin y) = rnd64 (x + y)
          \<and> js_sub (Fin x) (Fin y) = rnd64 (x - y)
          \<and> js_mul (Fin x) (Fin y) = rnd64 (x * y))"
proof -
  have e: "monthlyExpenses (Some f) = Fin (of_int (sum_list ns))"
    using foldl_js_add_whole [of 0 ns] assms(1,2)
    by (simp add: monthlyExpenses_def expenses4_as_foldl)
  have b: "bufferAmount rules (Some f) = Fin (of_int (sum_list ns * m))"
    using js_mul_int [OF assms(4)] by (simp add: bufferAmount_def e assms(3))
  have i: "\<forall>a b. parseFloat (balance13 (scenario_forecast c)) = Fin (of_int a)
          \<and> parseFloat (balance13 (base_forecast c)) = Fin (of_int b)
          \<and> \<bar>a - b\<bar> \<le> 2 ^ 53 \<longrightarrow> impactWeek13 c = Fin (of_int (a - b))"
    by (simp add: impactWeek13_def js_sub_int)
  have r: "\<forall>x y. js_add (Fin x) (Fin y) = rnd64 (x + y)
          \<and> js_sub (Fin x) (Fin y) = rnd64 (x - y)
          \<and> js_mul (Fin x) (Fin y) = rnd64 (x * y)"
    by (simp add: js_sub_def)
  from e b i r show ?thesis by blast
qed

theorem whole_amounts_are_exact_witness:
  "map (\<lambda>w. parseFloat (or_str (Some (cash_out w)) ''0'')) (take 4 (weeks sample_base))
     = map (\<lambda>n. Fin (of_int n)) [100, 100, 100, 100]
   \<and> sum_list (map abs [100, 100, 100, 100 :: int]) \<le> 2 ^ 53
   \<and> bufferMonths [sample_rule ''r1'' (Fin 2)] = Fin (of_int 2)
   \<and> monthlyExpenses (Some sample_base) = Fin 400
   \<and> bufferAmount [sample_rule ''r1'' (Fin 2)] (Some sample_base) = Fin 800
   \<and> impactWeek13 sample_comparison = Fin (- 50)"
proof -
  have a1: "map (\<lambda>w. parseFloat (or_str (Some (cash_out w)) ''0'')) (take 4 (weeks sample_base))
     = map (\<lambda>n. Fin (of_int n)) [100, 100, 100, 100]"
    by (simp add: sample_forecasts parse_eval rnd64_whole)
  have a2: "sum_list (map abs [100, 100, 100, 100 :: int]) \<le> 2 ^ 53" by simp
  have a3: "bufferMonths [sample_rule ''r1'' (Fin 2)] = Fin (of_int 2)"
    by (simp add: bufferMonths_def sample_rule_found sample_rule_months or_num_def)
  have a4: "\<bar>sum_list [100, 100, 100, 100] * (2::int)\<bar> \<le> 2 ^ 53" by simp
  have p: "parseFloat (balance13 (scenario_forecast sample_comparison)) = Fin (of_int 350)"
    "parseFloat (balance13 (base_forecast sample_comparison)) = Fin (of_int 400)"
    by (simp_all add: balance13_def sample_forecasts parse_eval rnd64_whole)
  note th = whole_amounts_are_exact [OF a1 a2 a3 a4, of sample_comparison]
  from th have i: "impactWeek13 sample_comparison = Fin (of_int (350 - 400))"
    using p by (intro th [THEN conjunct2, THEN conjunct2, THEN conjunct1, rule_format]) simp
  from th a1 a2 a3 i show ?thesis by simp
qed


section \<open>Settings page: saving the buffer rule\<close>

lemma buffer_rule_updated_or_created:
  assumes "user = Some u"
  shows "(\<forall>existingRule.
            List.find (\<lambda>r. rule_type r = ''minimum_cash_buffer'') rules = Some existingRule \<longrightarrow>
            fst (handleUpdateBufferRule user rules input resolved msg) =
              [updateRule (rule_ident existingRule) \<lparr>months = Some (parseInt input)\<rparr>])
   \<and> ((\<exists>d. createRule d \<in> set (fst (handleUpdateBufferRule user rules input resolved msg)))
        \<longleftrightarrow> (\<forall>r \<in> set rules. rule_type r \<noteq> ''minimum_cash_buffer''))
   \<and> ((\<forall>r \<in> set rules. rule_type r \<noteq> ''minimum_cash_buffer'') \<longrightarrow>
        (\<exists>d. fst (handleUpdateBufferRule user rules input resolved msg) = [createRule d]
             \<and> new_user_id d = user_ident u
             \<and> new_rule_type d = ''minimum_cash_buffer''
             \<and> new_threshold_config d = \<lparr>months = Some (parseInt input)\<rparr>))"
proof (cases "List.find (\<lambda>r. rule_type r = ''minimum_cash_buffer'') rules")
  case None
  then have none: "\<forall>r \<in> set rules. rule_type r \<noteq> ''minimum_cash_buffer''"
    by (simp add: find_None_iff)
  with None assms show ?thesis
    by (simp add: handleUpdateBufferRule_def bufferRuleCall_def)
next
  case (Some existingRule)
  then have ex: "existingRule \<in> set rules" "rule_type existingRule = ''minimum_cash_buffer''"
    by (auto simp: find_Some_iff)
  with Some assms show ?thesis
    by (auto simp: handleUpdateBufferRule_def bufferRuleCall_def)
qed

lemma saveRuleClicks_calls:
  "fst (saveRuleClicks user rules ((selected, resolved) # clicks) msg) =
     fst (handleUpdateBufferRule user rules selected resolved msg)
     @ fst (saveRuleClicks user rules clicks
              (snd (handleUpdateBufferRule user rules selected resolved msg)))"
  by (simp split: prod.splits)

lemma every_click_creates:
  assumes "user = Some u"
    and "\<forall>r \<in> set rules. rule_type r \<noteq> ''minimum_cash_buffer''"
  shows "length (filter (\<lambda>call. case call of createRule _ \<Rightarrow> True | _ \<Rightarrow> False)
           (fst (saveRuleClicks user rules clicks msg))) = length clicks"
proof (induction clicks arbitrary: msg)
  case Nil
  then show ?case by simp
next
  case (Cons click clicks)
  obtain selected resolved where c: "click = (selected, resolved)" by (cases click)
  from assms(2) have none: "List.find (\<lambda>r. rule_type r = ''minimum_cash_buffer'') rules = None"
    by (simp add: find_None_iff)
  have one: "\<exists>d. fst (handleUpdateBufferRule user rules selected resolved msg) = [createRule d]"
    using assms(1) none by (simp add: handleUpdateBufferRule_def bufferRuleCall_def)
  then obtain d where d: "fst (handleUpdateBufferRule user rules selected resolved msg) = [createRule d]"
    by blast
  show ?case
    unfolding c saveRuleClicks_calls d by (simp add: Cons.IH)
qed

text \<open>
  C9. The handler chooses between update and create on the rules as they were loaded,
  and no click changes them. For a user with no buffer rule loaded, a click on
  \<^verbatim>\<open>Save Rule\<close> with 3 months selected and a second click with 6 months selected
  issue two \<^verbatim>\<open>createRule\<close> calls, each for a \<^verbatim>\<open>minimum_cash_buffer\<close> rule of
  that user.
\<close>

theorem two_saves_create_two_rules:
  "fst (saveRuleClicks (Some sample_user) [] [(''3'', True), (''6'', True)] []) =
     [createRule
        \<lparr>new_user_id = ''u1'', new_rule_type = ''minimum_cash_buffer'',
         new_name = ''Minimum Cash Buffer'',
         new_description = ''Maintain at least 3 months of operating expenses'',
         new_threshold_config = \<lparr>months = Some (Fin 3)\<rparr>, new_is_active = True,
         new_evaluation_scope = ''all''\<rparr>,
      createRule
        \<lparr>new_user_id = ''u1'', new_rule_type = ''minimum_cash_buffer'',
         new_name = ''Minimum Cash Buffer'',
         new_description = ''Maintain at least 6 months of operating expenses'',
         new_threshold_config = \<lparr>months = Some (Fin 6)\<rparr>, new_is_active = True,
         new_evaluation_scope = ''all''\<rparr>]"
proof -
  have p: "parseInt ''3'' = Fin 3" "parseInt ''6'' = Fin 6"
    by (simp_all add: parse_eval rnd64_whole)
  show ?thesis
    by (simp add: handleUpdateBufferRule_def bufferRuleCall_def sample_user_def p)
qed


section \<open>API client: how a request settles\<close>






end
